theory Spec2Isabelle
  imports Main "HOL-Library.Word" "HOL-Library.Finite_Map"
begin

unbundle bit_operations_syntax

section \<open>Data model\<close>

text \<open>
  The file \<^verbatim>\<open>pkg/resource/resource.go\<close> turns a runtime object graph into a
  serializable property map.  Runtime objects, their types, the property values
  and the contract helpers live in other packages (\<^verbatim>\<open>eval/rt\<close>,
  \<^verbatim>\<open>compiler/symbols\<close>, \<^verbatim>\<open>compiler/types\<close>, \<^verbatim>\<open>util/contract\<close>); they are
  modelled here as far as \<^verbatim>\<open>resource.go\<close> reads them.
\<close>

type_synonym ID = string
type_synonym URN = string

text \<open>
  A \<^verbatim>\<open>*rt.Object\<close> is a pointer; the code compares such pointers
  (\<^verbatim>\<open>src != resobj\<close>) and uses them as keys of \<^verbatim>\<open>ctx.ObjURN\<close>.  A pointer is an
  address, and every object carries its own.
\<close>

type_synonym ptr = nat

text \<open>
  A \<^verbatim>\<open>float64\<close> is only ever copied by this file, so it is kept as its 64-bit
  IEEE 754 pattern; the constant \<^verbatim>\<open>0\<close> of the source is the pattern \<open>0\<close>.
\<close>

type_synonym float64 = "64 word"

text \<open>
  Modelled from the spec: the type descriptor \<^verbatim>\<open>symbols.Type\<close> (section 6,
  \<^verbatim>\<open>declaredType\<close>): the primitive singletons of package \<^verbatim>\<open>types\<close>, array, map,
  class, function and computed types, and any other kind of type.  A class
  records whether it derives from the predefined resource class.
\<close>

datatype Type =
    types_Null
  | types_Bool
  | types_Number
  | types_String
  | types_Object
  | types_Dynamic
  | ArrayType Type
  | MapType Type Type
  | Class string bool
  | FunctionType
  | ComputedType Type
  | OtherType string

text \<open>
  Modelled from the spec: \<^verbatim>\<open>PropertyValue\<close> (section 3) with the constructors
  \<^verbatim>\<open>NewNullProperty\<close>, \<^verbatim>\<open>NewBoolProperty\<close>, \<^verbatim>\<open>NewNumberProperty\<close>,
  \<^verbatim>\<open>NewStringProperty\<close>, \<^verbatim>\<open>NewArrayProperty\<close>, \<^verbatim>\<open>NewObjectProperty\<close>,
  \<^verbatim>\<open>NewResourceProperty\<close>, \<^verbatim>\<open>MakeComputed\<close> and \<^verbatim>\<open>MakeOutput\<close>.  A
  \<^verbatim>\<open>PropertyMap\<close> is a Go map from keys to property values; \<^verbatim>\<open>MakeComputed\<close>
  receives the slice of URNs as the code built it.
\<close>

datatype PropertyValue =
    NullProperty
  | BoolProperty bool
  | NumberProperty float64
  | StringProperty string
  | ArrayProperty "PropertyValue list"
  | ObjectProperty "(string, PropertyValue) fmap"
  | ResourceProperty URN
  | Computed PropertyValue "URN list"
  | Output PropertyValue

type_synonym PropertyMap = "(string, PropertyValue) fmap"

text \<open>
  Modelled from the spec: the runtime object \<^verbatim>\<open>rt.Object\<close> (section 6): its
  address, its declared type, its value (read by \<^verbatim>\<open>BoolValue\<close>, \<^verbatim>\<open>NumberValue\<close>,
  \<^verbatim>\<open>StringValue\<close>, \<^verbatim>\<open>ArrayValue\<close>, \<^verbatim>\<open>ComputedValue\<close>) and its properties.  The
  properties are listed in the order of \<^verbatim>\<open>Stable()\<close>, each key with the object
  that \<^verbatim>\<open>Get\<close> returns for it.  A computed value holds the flag \<^verbatim>\<open>Expr\<close> and
  the pointers \<^verbatim>\<open>Sources\<close>.  An accessor is valid only on a value of its own
  kind; on another value it fails (\<open>InvalidValue\<close> below).  An object is never
  \<^verbatim>\<open>nil\<close>, so the assertion of \<^verbatim>\<open>cloneObject\<close> holds.

  An object is given with the objects below it, as the tree that the cloner
  walks; the sources of a computed value are never walked and are pointers
  only.  (On a graph with a cycle of properties or elements the source does not
  return; such a graph has no tree.)
\<close>

datatype Obj =
  Obj (ptr: ptr) (Type: Type) (val: Val) (PropertyValues: "(string \<times> Obj) list")
and Val =
    NoValue
  | BoolVal bool
  | NumberVal float64
  | StringVal string
  | ArrayVal "Obj list"
  | ComputedVal bool "ptr list"

text \<open>
  Every failed \<^verbatim>\<open>contract.Assert\<close>, \<^verbatim>\<open>contract.Assertf\<close> and
  \<^verbatim>\<open>contract.Requiref\<close> and every runtime panic of the source is an error value.
\<close>

datatype error =
    MissingObjectReference ptr
  | MissingComputedReference ptr ptr
  | UnrecognizedType Type
  | InvalidValue Type
  | AlreadyAssigned string
  | AssertFailed string
  | MakeSliceLenOutOfRange int
  | OutOfMemory int
  | SliceBoundsOutOfRange int

record Context =
  ObjURN :: "ptr \<rightharpoonup> URN"

section \<open>Resources\<close>

text \<open>
  The struct \<^verbatim>\<open>resource\<close>; its fields \<^verbatim>\<open>id\<close>, \<^verbatim>\<open>urn\<close>, \<^verbatim>\<open>t\<close>, \<^verbatim>\<open>inputs\<close> and
  \<^verbatim>\<open>outputs\<close> carry the prefix \<open>r_\<close>.  \<^verbatim>\<open>SetID\<close> and \<^verbatim>\<open>SetURN\<close> return the
  resource they have changed, or the error of the failed \<^verbatim>\<open>contract.Requiref\<close>;
  the log line of \<^verbatim>\<open>SetID\<close> is left out.
\<close>

record resource =
  r_id :: ID
  r_urn :: URN
  r_t :: string
  r_inputs :: PropertyMap
  r_outputs :: PropertyMap

definition HasID :: "resource \<Rightarrow> bool" where
  "HasID r = (r_id r \<noteq> [])"

definition SetID :: "resource \<Rightarrow> ID \<Rightarrow> error + resource" where
  "SetID r i = (if \<not> HasID r then Inr (r\<lparr>r_id := i\<rparr>) else Inl (AlreadyAssigned ''id''))"

definition HasURN :: "resource \<Rightarrow> bool" where
  "HasURN r = (r_urn r \<noteq> [])"

definition SetURN :: "resource \<Rightarrow> URN \<Rightarrow> error + resource" where
  "SetURN r m = (if \<not> HasURN r then Inr (r\<lparr>r_urn := m\<rparr>) else Inl (AlreadyAssigned ''urn''))"

section \<open>Cloning\<close>

text \<open>
  Modelled from the spec: \<^verbatim>\<open>predef.IsResourceType\<close>, true of the classes that
  derive from the resource class.
\<close>

fun IsResourceType :: "Type \<Rightarrow> bool" where
  "IsResourceType (Class tok res) = res"
| "IsResourceType _ = False"

text \<open>The loop over \<^verbatim>\<open>comp.Sources\<close> that fills \<^verbatim>\<open>urns\<close>.\<close>

fun computedURNs :: "Context \<Rightarrow> ptr \<Rightarrow> ptr list \<Rightarrow> URN list \<Rightarrow> error + URN list" where
  "computedURNs ctx resobj [] urns = Inr urns"
| "computedURNs ctx resobj (src # srcs) urns =
     (if src \<noteq> resobj then
        (case ObjURN ctx src of
           None \<Rightarrow> Inl (MissingComputedReference resobj src)
         | Some urn \<Rightarrow> computedURNs ctx resobj srcs (urns @ [urn]))
      else computedURNs ctx resobj srcs urns)"

text \<open>
  The choice of the closure \<^verbatim>\<open>makeProperty\<close>: \<^verbatim>\<open>MakeOutput\<close> for an output
  property, and otherwise \<^verbatim>\<open>MakeComputed\<close> with the URNs of the sources.
\<close>

definition makeProperty ::
  "Context \<Rightarrow> ptr \<Rightarrow> bool \<Rightarrow> ptr list \<Rightarrow> error + (PropertyValue \<Rightarrow> PropertyValue)" where
  "makeProperty ctx resobj expr sources =
     (let outprop = (\<not> expr \<and> length sources = 1 \<and> hd sources = resobj) in
      if outprop then Inr (\<lambda>v. Output v)
      else (case computedURNs ctx resobj sources [] of
              Inl e \<Rightarrow> Inl e
            | Inr urns \<Rightarrow> Inr (\<lambda>v. Computed v urns)))"

text \<open>
  The two switches over \<^verbatim>\<open>future\<close>, the element type of the computed type:
  the value handed to \<^verbatim>\<open>makeProperty\<close>, or nothing when no case matches.
\<close>

fun futureProperty :: "Type \<Rightarrow> PropertyValue option" where
  "futureProperty types_Null = Some NullProperty"
| "futureProperty types_Bool = Some (BoolProperty False)"
| "futureProperty types_Number = Some (NumberProperty 0)"
| "futureProperty types_String = Some (StringProperty [])"
| "futureProperty types_Object = Some (ObjectProperty fmempty)"
| "futureProperty types_Dynamic = Some (ObjectProperty fmempty)"
| "futureProperty (ArrayType elem) = Some (ArrayProperty [])"
| "futureProperty (Class tok res) = Some (ObjectProperty fmempty)"
| "futureProperty _ = None"

text \<open>
  \<^verbatim>\<open>cloneObject\<close>, \<^verbatim>\<open>cloneObjectProperty\<close> and the two loops: the one over the
  elements of an array, which appends to \<^verbatim>\<open>result\<close>, and the one of
  \<^verbatim>\<open>cloneObjectProperties\<close> over the keys, which stores into \<^verbatim>\<open>result\<close>.  The
  result of \<^verbatim>\<open>cloneObjectProperty\<close> is an error, or \<open>None\<close> for the pair
  \<^verbatim>\<open>(PropertyValue{}, false)\<close>, or the value.  The array case hands the array
  object \<^verbatim>\<open>obj\<close> down as \<^verbatim>\<open>resobj\<close>, as the source does.
\<close>

function (sequential)
    cloneObject :: "Context \<Rightarrow> ptr \<Rightarrow> Obj \<Rightarrow> error + PropertyMap"
and cloneObjectProperty :: "Context \<Rightarrow> ptr \<Rightarrow> Obj \<Rightarrow> error + PropertyValue option"
and cloneArrayElements ::
      "Context \<Rightarrow> ptr \<Rightarrow> Obj list \<Rightarrow> PropertyValue list \<Rightarrow> error + PropertyValue list"
and cloneObjectProperties_loop ::
      "Context \<Rightarrow> ptr \<Rightarrow> (string \<times> Obj) list \<Rightarrow> PropertyMap \<Rightarrow> error + PropertyMap"
where
  "cloneObject ctx resobj (Obj p t v props) =
     cloneObjectProperties_loop ctx resobj props fmempty"
| "cloneObjectProperty ctx resobj (Obj p t v props) =
     (if IsResourceType t then
        (case ObjURN ctx p of
           None \<Rightarrow> Inl (MissingObjectReference p)
         | Some urn \<Rightarrow> Inr (Some (ResourceProperty urn)))
      else
        (case t of
           types_Null \<Rightarrow> Inr (Some NullProperty)
         | types_Bool \<Rightarrow>
             (case v of
                BoolVal b \<Rightarrow> Inr (Some (BoolProperty b))
              | _ \<Rightarrow> Inl (InvalidValue t))
         | types_Number \<Rightarrow>
             (case v of
                NumberVal n \<Rightarrow> Inr (Some (NumberProperty n))
              | _ \<Rightarrow> Inl (InvalidValue t))
         | types_String \<Rightarrow>
             (case v of
                StringVal s \<Rightarrow> Inr (Some (StringProperty s))
              | _ \<Rightarrow> Inl (InvalidValue t))
         | types_Object \<Rightarrow>
             (case cloneObject ctx resobj (Obj p t v props) of
                Inl e \<Rightarrow> Inl e
              | Inr result \<Rightarrow> Inr (Some (ObjectProperty result)))
         | types_Dynamic \<Rightarrow>
             (case cloneObject ctx resobj (Obj p t v props) of
                Inl e \<Rightarrow> Inl e
              | Inr result \<Rightarrow> Inr (Some (ObjectProperty result)))
         | ArrayType elem \<Rightarrow>
             (case v of
                ArrayVal es \<Rightarrow>
                  (case cloneArrayElements ctx p es [] of
                     Inl e \<Rightarrow> Inl e
                   | Inr result \<Rightarrow> Inr (Some (ArrayProperty result)))
              | _ \<Rightarrow> Inl (InvalidValue t))
         | MapType key elem \<Rightarrow>
             (case cloneObjectProperties_loop ctx resobj props fmempty of
                Inl e \<Rightarrow> Inl e
              | Inr result \<Rightarrow> Inr (Some (ObjectProperty result)))
         | Class tok res \<Rightarrow>
             (case cloneObject ctx resobj (Obj p t v props) of
                Inl e \<Rightarrow> Inl e
              | Inr result \<Rightarrow> Inr (Some (ObjectProperty result)))
         | ComputedType future \<Rightarrow>
             (case v of
                ComputedVal expr sources \<Rightarrow>
                  (case makeProperty ctx resobj expr sources of
                     Inl e \<Rightarrow> Inl e
                   | Inr mk \<Rightarrow>
                       (case futureProperty future of
                          Some z \<Rightarrow> Inr (Some (mk z))
                        | None \<Rightarrow> Inl (UnrecognizedType t)))
              | _ \<Rightarrow> Inl (InvalidValue t))
         | FunctionType \<Rightarrow> Inr None
         | OtherType nm \<Rightarrow> Inl (UnrecognizedType t)))"
| "cloneArrayElements ctx resobj [] result = Inr result"
| "cloneArrayElements ctx resobj (e # es) result =
     (case cloneObjectProperty ctx resobj e of
        Inl err \<Rightarrow> Inl err
      | Inr (Some v) \<Rightarrow> cloneArrayElements ctx resobj es (result @ [v])
      | Inr None \<Rightarrow> cloneArrayElements ctx resobj es result)"
| "cloneObjectProperties_loop ctx resobj [] result = Inr result"
| "cloneObjectProperties_loop ctx resobj ((k, e) # props) result =
     (case cloneObjectProperty ctx resobj e of
        Inl err \<Rightarrow> Inl err
      | Inr (Some v) \<Rightarrow> cloneObjectProperties_loop ctx resobj props (fmupd k v result)
      | Inr None \<Rightarrow> cloneObjectProperties_loop ctx resobj props result)"
  by pat_completeness auto
termination
  by (relation "measure (\<lambda>x. case x of
        Inl (Inl (ctx, r, obj)) \<Rightarrow> 2 * size obj
      | Inl (Inr (ctx, r, obj)) \<Rightarrow> 2 * size obj + 1
      | Inr (Inl (ctx, r, es, acc)) \<Rightarrow> 2 * size_list size es
      | Inr (Inr (ctx, r, props, acc)) \<Rightarrow> 2 * size_list (size_prod (\<lambda>x. 0) size) props)")
    auto

definition cloneObjectProperties ::
  "Context \<Rightarrow> ptr \<Rightarrow> (string \<times> Obj) list \<Rightarrow> error + PropertyMap" where
  "cloneObjectProperties ctx resobj props = cloneObjectProperties_loop ctx resobj props fmempty"

definition cloneResource :: "Context \<Rightarrow> Obj \<Rightarrow> error + PropertyMap" where
  "cloneResource ctx resobj = cloneObject ctx (ptr resobj) resobj"

section \<open>Unique hexadecimal names\<close>

text \<open>\<^verbatim>\<open>hex.EncodeToString\<close> of the Go library: two lower-case digits a byte.\<close>

definition hextable :: string where
  "hextable = ''0123456789abcdef''"

fun EncodeToString :: "8 word list \<Rightarrow> string" where
  "EncodeToString [] = []"
| "EncodeToString (b # bs) =
     hextable ! unat (drop_bit 4 b) # hextable ! unat (b AND 0x0f) # EncodeToString bs"

text \<open>
  The allocations of the Go runtime.  \<^verbatim>\<open>make([]byte, len)\<close> panics (makeslice:
  len out of range) when the length is negative or above \<^verbatim>\<open>maxAlloc\<close>, the bound
  of the runtime on the size of one allocation: \<open>2 ^ 48\<close> bytes on the 64-bit
  platforms, where \<^verbatim>\<open>int\<close> has 64 bits.  Below the bound the heap may still have
  no room, which ends the program (out of memory); whether an allocation of a
  given size is granted is the parameter \<open>mallocgc\<close>.  No length that passes
  these checks is near the bounds of \<^verbatim>\<open>int\<close>, so lengths are integers here.
\<close>

definition maxAlloc :: int where
  "maxAlloc = 2 ^ 48"

definition makeslice :: "(int \<Rightarrow> bool) \<Rightarrow> int \<Rightarrow> error + unit" where
  "makeslice mallocgc len =
     (if len < 0 \<or> maxAlloc < len then Inl (MakeSliceLenOutOfRange len)
      else if \<not> mallocgc len then Inl (OutOfMemory len)
      else Inr ())"

text \<open>
  \<^verbatim>\<open>rand.Read\<close> is a parameter: for a buffer of the given length it yields the
  bytes it has read (\<^verbatim>\<open>n\<close> is their number) and whether \<^verbatim>\<open>err\<close> is not nil.
  The function allocates three times: the buffer \<^verbatim>\<open>bs\<close> of \<^verbatim>\<open>randlen\<close> bytes,
  the \<open>2 * randlen\<close> digits inside \<^verbatim>\<open>hex.EncodeToString\<close> (a \<^verbatim>\<open>make\<close>, and the
  string of the same size), and the concatenation of the prefix and the
  digits, which is no \<^verbatim>\<open>make\<close> and ends the program when it is not granted.
  The slice \<^verbatim>\<open>str[:maxlen]\<close> panics on a negative bound.
\<close>

definition NewUniqueHex ::
  "(int \<Rightarrow> bool) \<Rightarrow> (nat \<Rightarrow> 8 word list \<times> bool) \<Rightarrow> string \<Rightarrow> int \<Rightarrow> int
     \<Rightarrow> error + string" where
  "NewUniqueHex mallocgc rand_Read prefix randlen maxlen =
     (case makeslice mallocgc randlen of
        Inl e \<Rightarrow> Inl e
      | Inr u \<Rightarrow>
        (case rand_Read (nat randlen) of (bs, err) \<Rightarrow>
           if err then Inl (AssertFailed ''err == nil'')
           else if int (length bs) \<noteq> randlen then Inl (AssertFailed ''n == len(bs)'')
           else
             (case makeslice mallocgc (2 * int (length bs)) of
                Inl e \<Rightarrow> Inl e
              | Inr u \<Rightarrow>
                if maxAlloc < int (length prefix) + 2 * int (length bs)
                   \<or> \<not> mallocgc (int (length prefix) + 2 * int (length bs))
                then Inl (OutOfMemory (int (length prefix) + 2 * int (length bs)))
                else
                  (let str = prefix @ EncodeToString bs in
                   if int (length str) > maxlen then
                     (if maxlen < 0 then Inl (SliceBoundsOutOfRange maxlen)
                      else Inr (take (nat maxlen) str))
                   else Inr str))))"

definition NewUniqueHexID ::
  "(int \<Rightarrow> bool) \<Rightarrow> (nat \<Rightarrow> 8 word list \<times> bool) \<Rightarrow> string \<Rightarrow> int \<Rightarrow> int
     \<Rightarrow> error + ID" where
  "NewUniqueHexID mallocgc rand_Read prefix randlen maxlen =
     NewUniqueHex mallocgc rand_Read prefix randlen maxlen"

section \<open>The variant of a declared type\<close>

text \<open>
  This definition follows the words of the specification (section 4.3, rules 1
  to 8), not the code: the variant of \<^verbatim>\<open>PropertyValue\<close> that belongs to a
  declared type.  A resource gives a resource reference, a primitive type its
  scalar, object, dynamic, map and class types an object, an array type an
  array, a computed type one of the two wrappers; a function type has none.
\<close>

fun spec_variant_matches :: "Type \<Rightarrow> PropertyValue \<Rightarrow> bool" where
  "spec_variant_matches (Class tok res) pv =
     (if res then (case pv of ResourceProperty urn \<Rightarrow> True | _ \<Rightarrow> False)
      else (case pv of ObjectProperty m \<Rightarrow> True | _ \<Rightarrow> False))"
| "spec_variant_matches types_Null pv = (case pv of NullProperty \<Rightarrow> True | _ \<Rightarrow> False)"
| "spec_variant_matches types_Bool pv = (case pv of BoolProperty b \<Rightarrow> True | _ \<Rightarrow> False)"
| "spec_variant_matches types_Number pv = (case pv of NumberProperty n \<Rightarrow> True | _ \<Rightarrow> False)"
| "spec_variant_matches types_String pv = (case pv of StringProperty s \<Rightarrow> True | _ \<Rightarrow> False)"
| "spec_variant_matches types_Object pv = (case pv of ObjectProperty m \<Rightarrow> True | _ \<Rightarrow> False)"
| "spec_variant_matches types_Dynamic pv = (case pv of ObjectProperty m \<Rightarrow> True | _ \<Rightarrow> False)"
| "spec_variant_matches (MapType key elem) pv =
     (case pv of ObjectProperty m \<Rightarrow> True | _ \<Rightarrow> False)"
| "spec_variant_matches (ArrayType elem) pv =
     (case pv of ArrayProperty vs \<Rightarrow> True | _ \<Rightarrow> False)"
| "spec_variant_matches (ComputedType future) pv =
     (case pv of Computed u deps \<Rightarrow> True | Output u \<Rightarrow> True | _ \<Rightarrow> False)"
| "spec_variant_matches FunctionType pv = False"
| "spec_variant_matches (OtherType nm) pv = False"

section \<open>Resource references\<close>

lemma cloneObjectProperty_resource:
  "IsResourceType t \<Longrightarrow>
   cloneObjectProperty ctx resobj (Obj p t v props) =
     (case ObjURN ctx p of
        None \<Rightarrow> Inl (MissingObjectReference p)
      | Some urn \<Rightarrow> Inr (Some (ResourceProperty urn)))"
  by simp

text \<open>
  Claim C4.  A resource-typed value that has an entry in the context is cloned
  to the resource reference carrying the URN of that entry.  When the entry is
  absent, the clone is the fatal error of the missing object reference, and no
  property value.
\<close>

theorem resource_value_reference_or_fatal:
  assumes "IsResourceType (Type obj)"
  shows "cloneObjectProperty ctx resobj obj =
     (case ObjURN ctx (ptr obj) of
        Some urn \<Rightarrow> Inr (Some (ResourceProperty urn))
      | None \<Rightarrow> Inl (MissingObjectReference (ptr obj)))"
  using assms by (cases obj) (simp split: option.splits)

theorem resource_value_reference_or_fatal_witness:
  "IsResourceType (Type (Obj 7 (Class ''aws:ec2/instance:Instance'' True) NoValue []))
   \<and> cloneObjectProperty \<lparr>ObjURN = [7 \<mapsto> ''urn:a'']\<rparr> 9
        (Obj 7 (Class ''aws:ec2/instance:Instance'' True) NoValue [])
      = Inr (Some (ResourceProperty ''urn:a''))
   \<and> cloneObjectProperty \<lparr>ObjURN = Map.empty\<rparr> 9
        (Obj 7 (Class ''aws:ec2/instance:Instance'' True) NoValue [])
      = Inl (MissingObjectReference 7)
   \<and> cloneResource \<lparr>ObjURN = [7 \<mapsto> ''urn:a'']\<rparr>
        (Obj 9 (Class ''aws:ec2/volume:Volume'' True) NoValue
           [(''instance'', Obj 7 (Class ''aws:ec2/instance:Instance'' True) NoValue [])])
      = Inr (fmupd ''instance'' (ResourceProperty ''urn:a'') fmempty)
   \<and> cloneResource \<lparr>ObjURN = Map.empty\<rparr>
        (Obj 9 (Class ''aws:ec2/volume:Volume'' True) NoValue
           [(''instance'', Obj 7 (Class ''aws:ec2/instance:Instance'' True) NoValue [])])
      = Inl (MissingObjectReference 7)"
  using resource_value_reference_or_fatal
          [of "Obj 7 (Class ''aws:ec2/instance:Instance'' True) NoValue []"
              "\<lparr>ObjURN = [7 \<mapsto> ''urn:a'']\<rparr>" 9]
        resource_value_reference_or_fatal
          [of "Obj 7 (Class ''aws:ec2/instance:Instance'' True) NoValue []"
              "\<lparr>ObjURN = Map.empty\<rparr>" 9]
  by (simp add: cloneResource_def)

section \<open>Computed values\<close>

lemma computedURNs_acc:
  "computedURNs ctx resobj srcs urns = Inr res \<Longrightarrow>
     map Some res = map Some urns @ map (ObjURN ctx) (filter (\<lambda>s. s \<noteq> resobj) srcs)"
  by (induction srcs arbitrary: urns) (auto split: if_splits option.splits)

lemma computedURNs_ok:
  "\<forall>s \<in> set srcs. s \<noteq> resobj \<longrightarrow> ObjURN ctx s \<noteq> None \<Longrightarrow>
     \<exists>res. computedURNs ctx resobj srcs urns = Inr res"
  by (induction srcs arbitrary: urns) (auto split: if_splits option.splits)

lemma computedURNs_missing:
  "s \<in> set srcs \<Longrightarrow> s \<noteq> resobj \<Longrightarrow> ObjURN ctx s = None \<Longrightarrow>
     \<exists>s'. s' \<in> set srcs \<and> s' \<noteq> resobj \<and> ObjURN ctx s' = None \<and>
       computedURNs ctx resobj srcs urns = Inl (MissingComputedReference resobj s')"
  by (induction srcs arbitrary: urns) (auto split: if_splits option.splits)

lemma makeProperty_cases:
  "makeProperty ctx resobj expr sources =
     (if \<not> expr \<and> sources = [resobj] then Inr Output
      else case computedURNs ctx resobj sources [] of
             Inl e \<Rightarrow> Inl e
           | Inr urns \<Rightarrow> Inr (\<lambda>v. Computed v urns))"
  by (cases sources) (auto simp: makeProperty_def)

lemma clone_computed:
  "cloneObjectProperty ctx resobj (Obj p (ComputedType future) (ComputedVal expr sources) props) =
     (case makeProperty ctx resobj expr sources of
        Inl e \<Rightarrow> Inl e
      | Inr mk \<Rightarrow>
          (case futureProperty future of
             Some z \<Rightarrow> Inr (Some (mk z))
           | None \<Rightarrow> Inl (UnrecognizedType (ComputedType future))))"
  by simp

lemma clone_wrapper_is_computed:
  assumes "cloneObjectProperty ctx resobj (Obj p t v props) = Inr (Some pv)"
    and "pv = Output u \<or> pv = Computed u deps"
  shows "\<exists>future expr sources. t = ComputedType future \<and> v = ComputedVal expr sources"
  using assms
  by (cases t; cases v) (auto split: if_splits option.splits sum.splits)

lemma futureProperty_Some:
  "futureProperty future = Some z \<Longrightarrow>
     future = types_Null \<and> z = NullProperty
   \<or> future = types_Bool \<and> z = BoolProperty False
   \<or> future = types_Number \<and> z = NumberProperty 0
   \<or> future = types_String \<and> z = StringProperty []
   \<or> (future = types_Object \<or> future = types_Dynamic \<or> (\<exists>tok res. future = Class tok res))
       \<and> z = ObjectProperty fmempty
   \<or> (\<exists>elem. future = ArrayType elem) \<and> z = ArrayProperty []"
  by (cases future) auto

text \<open>
  Claim C5.  Whenever the clone of a value is an \<open>Output\<close> or a \<open>Computed\<close>
  wrapper, the value has a computed type, and the wrapped placeholder is the zero
  value of the element type of that computed type: null for null, false for bool,
  the number 0 for number, the empty string for string, the empty array for an
  array type, and the empty object for object, dynamic and class types.
\<close>

theorem computed_placeholder_is_zero_value:
  assumes "cloneObjectProperty ctx resobj obj = Inr (Some pv)"
    and "pv = Output u \<or> pv = Computed u deps"
  shows "\<exists>future. Type obj = ComputedType future \<and>
     (future = types_Null \<and> u = NullProperty
    \<or> future = types_Bool \<and> u = BoolProperty False
    \<or> future = types_Number \<and> u = NumberProperty 0
    \<or> future = types_String \<and> u = StringProperty ''''
    \<or> (future = types_Object \<or> future = types_Dynamic \<or> (\<exists>tok res. future = Class tok res))
        \<and> u = ObjectProperty fmempty
    \<or> (\<exists>elem. future = ArrayType elem) \<and> u = ArrayProperty [])"
proof -
  obtain p t v props where obj: "obj = Obj p t v props"
    by (cases obj)
  from assms obtain future expr sources
    where t: "t = ComputedType future" and v: "v = ComputedVal expr sources"
    unfolding obj by (blast dest: clone_wrapper_is_computed)
  from assms(1) obtain mk z
    where mk: "makeProperty ctx resobj expr sources = Inr mk"
      and z: "futureProperty future = Some z" and pv: "pv = mk z"
    unfolding obj t v clone_computed
    by (auto split: sum.splits option.splits)
  from mk have "mk = Output \<or> (\<exists>urns. mk = (\<lambda>v. Computed v urns))"
    by (auto simp: makeProperty_cases split: if_splits sum.splits)
  with pv assms(2) have "u = z"
    by auto
  with futureProperty_Some [OF z] show ?thesis
    by (simp add: obj t)
qed

theorem computed_placeholder_is_zero_value_witness:
  "cloneObjectProperty \<lparr>ObjURN = [2 \<mapsto> ''c-1'']\<rparr> 1
      (Obj 5 (ComputedType (ArrayType types_String)) (ComputedVal True [2]) [])
     = Inr (Some (Computed (ArrayProperty []) [''c-1'']))
   \<and> (\<exists>future. Type (Obj 5 (ComputedType (ArrayType types_String)) (ComputedVal True [2]) [])
          = ComputedType future
        \<and> (\<exists>elem. future = ArrayType elem))"
  using computed_placeholder_is_zero_value
    [of "\<lparr>ObjURN = [2 \<mapsto> ''c-1'']\<rparr>" 1
        "Obj 5 (ComputedType (ArrayType types_String)) (ComputedVal True [2]) []"
        "Computed (ArrayProperty []) [''c-1'']" "ArrayProperty []" "[''c-1'']"]
  by (simp add: makeProperty_def)

lemma makeProperty_Computed:
  assumes "makeProperty ctx resobj expr sources = Inr mk" and "mk z = Computed u deps"
  shows "computedURNs ctx resobj sources [] = Inr deps \<and> \<not> (\<not> expr \<and> sources = [resobj])"
  using assms by (auto simp: makeProperty_cases split: if_splits sum.splits)

lemma makeProperty_Output:
  assumes "makeProperty ctx resobj expr sources = Inr mk" and "mk z = Output u"
  shows "\<not> expr \<and> sources = [resobj]"
  using assms by (auto simp: makeProperty_cases split: if_splits sum.splits)

lemma makeProperty_missing:
  assumes "src \<in> set sources" and "src \<noteq> resobj" and "ObjURN ctx src = None"
  shows "\<exists>s'. s' \<in> set sources \<and> s' \<noteq> resobj \<and> ObjURN ctx s' = None \<and>
           makeProperty ctx resobj expr sources = Inl (MissingComputedReference resobj s')"
proof -
  from assms have "sources \<noteq> [resobj]"
    by auto
  moreover from computedURNs_missing [OF assms] obtain s'
    where "s' \<in> set sources" "s' \<noteq> resobj" "ObjURN ctx s' = None"
      "computedURNs ctx resobj sources [] = Inl (MissingComputedReference resobj s')"
    by blast
  ultimately show ?thesis
    by (auto simp: makeProperty_cases)
qed

lemma makeProperty_resolved:
  assumes "\<forall>src \<in> set sources. src \<noteq> resobj \<longrightarrow> ObjURN ctx src \<noteq> None"
    and "\<not> (\<not> expr \<and> sources = [resobj])"
  shows "\<exists>deps. makeProperty ctx resobj expr sources = Inr (\<lambda>v. Computed v deps)"
proof -
  from computedURNs_ok [OF assms(1)] obtain deps
    where "computedURNs ctx resobj sources [] = Inr deps"
    by blast
  with assms(2) show ?thesis
    by (auto simp: makeProperty_cases)
qed

text \<open>
  The dependencies of a computed value, relative to the owner \<open>resobj\<close> that
  \<^verbatim>\<open>cloneObjectProperty\<close> receives.  When the clone is a \<open>Computed\<close> wrapper, its
  dependencies are the URNs that the context holds for the sources other than
  \<open>resobj\<close>, in the order of the sources, and the occurrences of \<open>resobj\<close> are
  left out.  When a source other than \<open>resobj\<close> has no entry in the context, the
  clone is the fatal error of a missing computed reference to such a source.
\<close>

theorem computed_dependencies_are_other_sources:
  assumes "Type obj = ComputedType future" and "val obj = ComputedVal expr sources"
  shows "(\<forall>u deps. cloneObjectProperty ctx resobj obj = Inr (Some (Computed u deps)) \<longrightarrow>
            map Some deps = map (ObjURN ctx) (filter (\<lambda>src. src \<noteq> resobj) sources))
       \<and> ((\<exists>src \<in> set sources. src \<noteq> resobj \<and> ObjURN ctx src = None) \<longrightarrow>
            (\<exists>src \<in> set sources. src \<noteq> resobj \<and> ObjURN ctx src = None \<and>
               cloneObjectProperty ctx resobj obj = Inl (MissingComputedReference resobj src)))"
proof -
  obtain p props where obj: "obj = Obj p (ComputedType future) (ComputedVal expr sources) props"
    using assms by (cases obj) simp
  have deps: "map Some deps = map (ObjURN ctx) (filter (\<lambda>src. src \<noteq> resobj) sources)"
    if "cloneObjectProperty ctx resobj obj = Inr (Some (Computed u deps))" for u deps
  proof -
    from that obtain mk z where "makeProperty ctx resobj expr sources = Inr mk"
      and "mk z = Computed u deps"
      unfolding obj clone_computed by (auto split: sum.splits option.splits)
    then have "computedURNs ctx resobj sources [] = Inr deps"
      by (simp add: makeProperty_Computed)
    from computedURNs_acc [OF this] show ?thesis
      by simp
  qed
  have missing: "\<exists>src \<in> set sources. src \<noteq> resobj \<and> ObjURN ctx src = None \<and>
      cloneObjectProperty ctx resobj obj = Inl (MissingComputedReference resobj src)"
    if "\<exists>src \<in> set sources. src \<noteq> resobj \<and> ObjURN ctx src = None"
  proof -
    from that obtain src where "src \<in> set sources" "src \<noteq> resobj" "ObjURN ctx src = None"
      by blast
    from makeProperty_missing [OF this, of expr] obtain s'
      where "s' \<in> set sources" "s' \<noteq> resobj" "ObjURN ctx s' = None"
        "makeProperty ctx resobj expr sources = Inl (MissingComputedReference resobj s')"
      by blast
    then show ?thesis
      unfolding obj clone_computed by auto
  qed
  from deps missing show ?thesis
    by blast
qed

theorem computed_dependencies_are_other_sources_witness:
  "Type (Obj 5 (ComputedType types_String) (ComputedVal False [1, 2, 1, 3]) [])
     = ComputedType types_String
   \<and> val (Obj 5 (ComputedType types_String) (ComputedVal False [1, 2, 1, 3]) [])
     = ComputedVal False [1, 2, 1, 3]
   \<and> cloneObjectProperty \<lparr>ObjURN = [2 \<mapsto> ''c-1'', 3 \<mapsto> ''d-1'']\<rparr> 1
       (Obj 5 (ComputedType types_String) (ComputedVal False [1, 2, 1, 3]) [])
     = Inr (Some (Computed (StringProperty '''') [''c-1'', ''d-1'']))
   \<and> map Some [''c-1'', ''d-1'']
     = map (ObjURN \<lparr>ObjURN = [2 \<mapsto> ''c-1'', 3 \<mapsto> ''d-1'']\<rparr>)
         (filter (\<lambda>src. src \<noteq> 1) [1, 2, 1, 3])
   \<and> cloneObjectProperty \<lparr>ObjURN = [2 \<mapsto> ''c-1'']\<rparr> 1
       (Obj 5 (ComputedType types_String) (ComputedVal False [1, 2, 1, 3]) [])
     = Inl (MissingComputedReference 1 3)"
  using computed_dependencies_are_other_sources
    [of "Obj 5 (ComputedType types_String) (ComputedVal False [1, 2, 1, 3]) []"
        types_String False "[1, 2, 1, 3]" "\<lparr>ObjURN = [2 \<mapsto> ''c-1'', 3 \<mapsto> ''d-1'']\<rparr>" 1]
  by (simp add: makeProperty_def)

lemma futureProperty_None_iff:
  "futureProperty future \<noteq> None \<longleftrightarrow>
     future \<in> {types_Null, types_Bool, types_Number, types_String, types_Object, types_Dynamic}
     \<or> (\<exists>elem. future = ArrayType elem) \<or> (\<exists>tok res. future = Class tok res)"
  by (cases future) auto

lemma clone_computed_Output_iff:
  "(\<exists>u. cloneObjectProperty ctx resobj
           (Obj p (ComputedType future) (ComputedVal expr sources) props) = Inr (Some (Output u)))
   \<longleftrightarrow> (\<not> expr \<and> sources = [resobj]) \<and> futureProperty future \<noteq> None"
  unfolding clone_computed
  by (auto simp: makeProperty_cases split: sum.splits option.splits)

lemma clone_computed_Computed_iff:
  "(\<exists>u deps. cloneObjectProperty ctx resobj
           (Obj p (ComputedType future) (ComputedVal expr sources) props)
              = Inr (Some (Computed u deps)))
   \<longleftrightarrow> \<not> (\<not> expr \<and> sources = [resobj])
       \<and> (\<forall>src \<in> set sources. src \<noteq> resobj \<longrightarrow> ObjURN ctx src \<noteq> None)
       \<and> futureProperty future \<noteq> None"
  (is "?lhs \<longleftrightarrow> ?rhs")
proof
  assume ?lhs
  then obtain u deps mk z where mk: "makeProperty ctx resobj expr sources = Inr mk"
    and z: "futureProperty future = Some z" and c: "mk z = Computed u deps"
    unfolding clone_computed by (auto split: sum.splits option.splits)
  from makeProperty_Computed [OF mk c]
  have urns: "computedURNs ctx resobj sources [] = Inr deps"
    and nout: "\<not> (\<not> expr \<and> sources = [resobj])"
    by simp_all
  have "ObjURN ctx src \<noteq> None" if "src \<in> set sources" "src \<noteq> resobj" for src
  proof
    assume "ObjURN ctx src = None"
    from computedURNs_missing [OF that this, of "[]"] urns show False
      by auto
  qed
  with nout z show ?rhs
    by auto
next
  assume r: ?rhs
  then obtain z where z: "futureProperty future = Some z"
    by auto
  from r makeProperty_resolved [of sources resobj ctx expr] obtain deps
    where "makeProperty ctx resobj expr sources = Inr (\<lambda>v. Computed v deps)"
    by blast
  with z show ?lhs
    unfolding clone_computed by auto
qed

lemma clone_computed_result:
  assumes "cloneObjectProperty ctx resobj
      (Obj p (ComputedType future) (ComputedVal expr sources) props) = Inr r"
  shows "\<exists>u. r = Some (Output u) \<or> (\<exists>deps. r = Some (Computed u deps))"
  using assms unfolding clone_computed
  by (auto simp: makeProperty_cases split: sum.splits option.splits if_splits)

text \<open>
  Claim C2, as amended.  Let a computed value be cloned as a direct property of
  the resource \<open>R\<close>, that is, with owner \<open>R\<close>.  The clone is an \<open>Output\<close> wrapper
  exactly when the value is not an expression, its sources are the one element
  \<open>R\<close>, and the element type of its computed type has a placeholder (null, bool,
  number, string, object, dynamic, an array type or a class).  It is a
  \<open>Computed\<close> wrapper exactly when the value is an expression or its sources are
  not the one element \<open>R\<close>, every source other than \<open>R\<close> has an entry in the
  context, and the element type has a placeholder.  In every remaining case the
  clone is a fatal error: a computed value is never skipped, and a clone that is
  a value is one of the two wrappers.
\<close>

theorem computed_value_output_iff_owner_only:
  assumes "Type obj = ComputedType future" and "val obj = ComputedVal expr sources"
  shows "((\<exists>u. cloneObjectProperty ctx R obj = Inr (Some (Output u))) \<longleftrightarrow>
            (\<not> expr \<and> sources = [R]) \<and>
            (future \<in> {types_Null, types_Bool, types_Number, types_String,
                        types_Object, types_Dynamic}
             \<or> (\<exists>elem. future = ArrayType elem) \<or> (\<exists>tok res. future = Class tok res)))
       \<and> ((\<exists>u deps. cloneObjectProperty ctx R obj = Inr (Some (Computed u deps))) \<longleftrightarrow>
            \<not> (\<not> expr \<and> sources = [R]) \<and>
            (\<forall>src \<in> set sources. src \<noteq> R \<longrightarrow> ObjURN ctx src \<noteq> None) \<and>
            (future \<in> {types_Null, types_Bool, types_Number, types_String,
                        types_Object, types_Dynamic}
             \<or> (\<exists>elem. future = ArrayType elem) \<or> (\<exists>tok res. future = Class tok res)))
       \<and> (\<forall>r. cloneObjectProperty ctx R obj = Inr r \<longrightarrow>
            (\<exists>u. r = Some (Output u) \<or> (\<exists>deps. r = Some (Computed u deps))))"
proof -
  obtain p props where obj: "obj = Obj p (ComputedType future) (ComputedVal expr sources) props"
    using assms by (cases obj) simp
  show ?thesis
    unfolding obj clone_computed_Output_iff clone_computed_Computed_iff futureProperty_None_iff
    using clone_computed_result [of ctx R p future expr sources props]
    by blast
qed

theorem computed_value_output_iff_owner_only_witness:
  "Type (Obj 5 (ComputedType types_String) (ComputedVal False [1]) []) = ComputedType types_String
   \<and> val (Obj 5 (ComputedType types_String) (ComputedVal False [1]) []) = ComputedVal False [1]
   \<and> cloneObjectProperty \<lparr>ObjURN = Map.empty\<rparr> 1
       (Obj 5 (ComputedType types_String) (ComputedVal False [1]) [])
     = Inr (Some (Output (StringProperty '''')))
   \<and> (\<exists>u. cloneObjectProperty \<lparr>ObjURN = Map.empty\<rparr> 1
       (Obj 5 (ComputedType types_String) (ComputedVal False [1]) [])
     = Inr (Some (Output u)))"
  using computed_value_output_iff_owner_only
    [of "Obj 5 (ComputedType types_String) (ComputedVal False [1]) []"
        types_String False "[1]" "\<lparr>ObjURN = Map.empty\<rparr>" 1]
  by (simp add: makeProperty_def)

text \<open>
  The claim as it was stated fails.  The two computed values below are direct
  properties of the resource at address 1.  The one source of the first is
  another object, for which the context has no entry: the clone is no
  \<open>Computed\<close> wrapper.  The second is not an expression and its one source is the
  resource, but the element type of its computed type is a map type: the clone
  is no \<open>Output\<close> wrapper.
\<close>

theorem computed_value_not_wrapped_counterexample:
  "cloneObjectProperty \<lparr>ObjURN = Map.empty\<rparr> 1
     (Obj 5 (ComputedType types_String) (ComputedVal False [2]) [])
   = Inl (MissingComputedReference 1 2)
   \<and> cloneObjectProperty \<lparr>ObjURN = Map.empty\<rparr> 1
     (Obj 6 (ComputedType (MapType types_String types_String)) (ComputedVal False [1]) [])
   = Inl (UnrecognizedType (ComputedType (MapType types_String types_String)))"
  by (simp add: makeProperty_def)

section \<open>Computed values of a map type\<close>

lemma clone_computed_no_placeholder:
  assumes "futureProperty future = None"
  shows "cloneObjectProperty ctx resobj
           (Obj p (ComputedType future) (ComputedVal expr sources) props) =
         (case makeProperty ctx resobj expr sources of
            Inl e \<Rightarrow> Inl e
          | Inr mk \<Rightarrow> Inl (UnrecognizedType (ComputedType future)))"
  unfolding clone_computed using assms by (simp split: sum.splits)

lemma makeProperty_succeeds:
  assumes "(\<not> expr \<and> sources = [resobj]) \<or>
           (\<forall>src \<in> set sources. src \<noteq> resobj \<longrightarrow> ObjURN ctx src \<noteq> None)"
  shows "\<exists>mk. makeProperty ctx resobj expr sources = Inr mk"
proof (cases "\<not> expr \<and> sources = [resobj]")
  case True
  then show ?thesis
    by (simp add: makeProperty_cases)
next
  case False
  with assms makeProperty_resolved [of sources resobj ctx expr] show ?thesis
    by blast
qed

lemma clone_map:
  "cloneObjectProperty ctx resobj (Obj p (MapType key elem) v props) =
     (case cloneObjectProperties ctx resobj props of
        Inl e \<Rightarrow> Inl e
      | Inr result \<Rightarrow> Inr (Some (ObjectProperty result)))"
  by (simp add: cloneObjectProperties_def)

text \<open>
  Claim C8, as amended.  The clone of a computed value whose element type is a
  map type is always a fatal error.  It is the error of the unrecognized type
  whenever the value is an output property of the owner or every source other
  than the owner has an entry in the context; otherwise it is the error of a
  missing computed reference, raised before the switch over the element type
  is reached.  A value of a map type that is not computed is cloned to an
  object whenever the clone of its properties succeeds, as it does for a map
  without properties.  The switch gives a placeholder for null, bool, number,
  string, object, dynamic, array types and classes, and none for a map type.
\<close>

theorem computed_map_value_aborts:
  assumes "Type obj = ComputedType (MapType key elem)" and "val obj = ComputedVal expr sources"
  shows "(\<exists>err. cloneObjectProperty ctx resobj obj = Inl err)
       \<and> ((\<not> expr \<and> sources = [resobj]) \<or>
           (\<forall>src \<in> set sources. src \<noteq> resobj \<longrightarrow> ObjURN ctx src \<noteq> None) \<longrightarrow>
            cloneObjectProperty ctx resobj obj
              = Inl (UnrecognizedType (ComputedType (MapType key elem))))
       \<and> ((\<exists>src \<in> set sources. src \<noteq> resobj \<and> ObjURN ctx src = None) \<longrightarrow>
            (\<exists>src \<in> set sources. src \<noteq> resobj \<and> ObjURN ctx src = None \<and>
               cloneObjectProperty ctx resobj obj = Inl (MissingComputedReference resobj src)))
       \<and> (\<forall>p v props. cloneObjectProperty ctx resobj (Obj p (MapType key elem) v props) =
            (case cloneObjectProperties ctx resobj props of
               Inl e \<Rightarrow> Inl e
             | Inr result \<Rightarrow> Inr (Some (ObjectProperty result))))
       \<and> (\<forall>p v. cloneObjectProperty ctx resobj (Obj p (MapType key elem) v [])
            = Inr (Some (ObjectProperty fmempty)))
       \<and> futureProperty (MapType key elem) = None
       \<and> futureProperty types_Null = Some NullProperty
       \<and> futureProperty types_Bool = Some (BoolProperty False)
       \<and> futureProperty types_Number = Some (NumberProperty 0)
       \<and> futureProperty types_String = Some (StringProperty '''')
       \<and> futureProperty types_Object = Some (ObjectProperty fmempty)
       \<and> futureProperty types_Dynamic = Some (ObjectProperty fmempty)
       \<and> (\<forall>t. futureProperty (ArrayType t) = Some (ArrayProperty []))
       \<and> (\<forall>tok res. futureProperty (Class tok res) = Some (ObjectProperty fmempty))"
proof -
  obtain p props where obj:
    "obj = Obj p (ComputedType (MapType key elem)) (ComputedVal expr sources) props"
    using assms by (cases obj) simp
  have none: "futureProperty (MapType key elem) = None"
    by simp
  have clone: "cloneObjectProperty ctx resobj obj =
      (case makeProperty ctx resobj expr sources of
         Inl e \<Rightarrow> Inl e
       | Inr mk \<Rightarrow> Inl (UnrecognizedType (ComputedType (MapType key elem))))"
    unfolding obj by (rule clone_computed_no_placeholder [OF none])
  have aborts: "\<exists>err. cloneObjectProperty ctx resobj obj = Inl err"
    unfolding clone by (simp split: sum.splits)
  have unrecognized: "cloneObjectProperty ctx resobj obj
      = Inl (UnrecognizedType (ComputedType (MapType key elem)))"
    if "(\<not> expr \<and> sources = [resobj]) \<or>
        (\<forall>src \<in> set sources. src \<noteq> resobj \<longrightarrow> ObjURN ctx src \<noteq> None)"
    using makeProperty_succeeds [OF that] unfolding clone by auto
  have missing: "\<exists>src \<in> set sources. src \<noteq> resobj \<and> ObjURN ctx src = None \<and>
      cloneObjectProperty ctx resobj obj = Inl (MissingComputedReference resobj src)"
    if "\<exists>src \<in> set sources. src \<noteq> resobj \<and> ObjURN ctx src = None"
  proof -
    from that obtain src where "src \<in> set sources" "src \<noteq> resobj" "ObjURN ctx src = None"
      by blast
    from makeProperty_missing [OF this, of expr] show ?thesis
      unfolding clone by auto
  qed
  have plain: "cloneObjectProperty ctx resobj (Obj q (MapType key elem) v ps) =
      (case cloneObjectProperties ctx resobj ps of
         Inl e \<Rightarrow> Inl e
       | Inr result \<Rightarrow> Inr (Some (ObjectProperty result)))" for q v ps
    by (rule clone_map)
  have empty: "cloneObjectProperty ctx resobj (Obj q (MapType key elem) v [])
      = Inr (Some (ObjectProperty fmempty))" for q v
    by simp
  from aborts unrecognized missing plain empty show ?thesis
    by simp
qed

theorem computed_map_value_aborts_witness:
  "Type (Obj 5 (ComputedType (MapType types_String types_Number)) (ComputedVal False [1]) [])
     = ComputedType (MapType types_String types_Number)
   \<and> val (Obj 5 (ComputedType (MapType types_String types_Number)) (ComputedVal False [1]) [])
     = ComputedVal False [1]
   \<and> cloneObjectProperty \<lparr>ObjURN = Map.empty\<rparr> 1
       (Obj 5 (ComputedType (MapType types_String types_Number)) (ComputedVal False [1]) [])
     = Inl (UnrecognizedType (ComputedType (MapType types_String types_Number)))
   \<and> cloneObjectProperty \<lparr>ObjURN = Map.empty\<rparr> 1
       (Obj 6 (MapType types_String types_Number) NoValue
          [(''a'', Obj 7 types_Number (NumberVal 0x3FF0000000000000) [])])
     = Inr (Some (ObjectProperty (fmupd ''a'' (NumberProperty 0x3FF0000000000000) fmempty)))"
  using computed_map_value_aborts
    [where obj = "Obj 5 (ComputedType (MapType types_String types_Number)) (ComputedVal False [1]) []"
       and key = types_String and elem = types_Number and expr = False and sources = "[1]"
       and resobj = 1 and ctx = "\<lparr>ObjURN = Map.empty\<rparr>"]
  by (simp add: cloneObjectProperties_def)

text \<open>
  The claim as it was stated fails: for the computed map below, whose source has
  no entry in the context, the clone stops at the assertion on the sources and
  never reaches the one on the unrecognized type.
\<close>

theorem computed_map_unresolved_source_counterexample:
  "cloneObjectProperty \<lparr>ObjURN = Map.empty\<rparr> 1
     (Obj 5 (ComputedType (MapType types_String types_Number)) (ComputedVal False [2]) [])
   = Inl (MissingComputedReference 1 2)"
  by (simp add: makeProperty_def)

section \<open>Arrays\<close>

lemma cloneArrayElements_result:
  assumes "\<forall>e \<in> set es. \<forall>err. cloneObjectProperty ctx resobj e \<noteq> Inl err"
  shows "cloneArrayElements ctx resobj es result =
     Inr (result @ concat (map (\<lambda>e. case cloneObjectProperty ctx resobj e of
                                       Inr (Some v) \<Rightarrow> [v] | _ \<Rightarrow> []) es))"
  using assms
proof (induction es arbitrary: result)
  case Nil
  show ?case by simp
next
  case (Cons e es)
  from Cons.prems have rest: "\<forall>e \<in> set es. \<forall>err. cloneObjectProperty ctx resobj e \<noteq> Inl err"
    by simp
  from Cons.prems obtain r where r: "cloneObjectProperty ctx resobj e = Inr r"
    by (cases "cloneObjectProperty ctx resobj e") auto
  show ?case
    by (cases r) (simp_all add: r Cons.IH [OF rest])
qed

lemma clone_function:
  "Type e = FunctionType \<Longrightarrow> cloneObjectProperty ctx resobj e = Inr None"
  by (cases e) simp

lemma clone_array_owner:
  "cloneObjectProperty ctx resobj (Obj p (ArrayType elem) (ArrayVal es) props) =
     (case cloneArrayElements ctx p es [] of
        Inl e \<Rightarrow> Inl e
      | Inr result \<Rightarrow> Inr (Some (ArrayProperty result)))"
  by simp

lemma cloneArrayElements_success_iff:
  "(\<exists>vs. cloneArrayElements ctx resobj es result = Inr vs) \<longleftrightarrow>
   (\<forall>e \<in> set es. \<exists>r. cloneObjectProperty ctx resobj e = Inr r)"
proof (induction es arbitrary: result)
  case Nil
  show ?case by simp
next
  case (Cons e es)
  show ?case
  proof (cases "cloneObjectProperty ctx resobj e")
    case (Inl err)
    then show ?thesis
      by simp
  next
    case (Inr r)
    then show ?thesis
      using Cons.IH by (cases r) simp_all
  qed
qed

lemma cloneArrayElements_error_first:
  assumes "cloneArrayElements ctx resobj es result = Inl err"
  shows "\<exists>pre e post. es = pre @ e # post \<and>
           cloneObjectProperty ctx resobj e = Inl err \<and>
           (\<forall>x \<in> set pre. \<exists>r. cloneObjectProperty ctx resobj x = Inr r)"
  using assms
proof (induction es arbitrary: result)
  case Nil
  then show ?case by simp
next
  case (Cons e es)
  show ?case
  proof (cases "cloneObjectProperty ctx resobj e")
    case (Inl err')
    with Cons.prems have "err' = err"
      by simp
    with Inl have "e # es = [] @ e # es \<and>
        cloneObjectProperty ctx resobj e = Inl err \<and>
        (\<forall>x \<in> set []. \<exists>r. cloneObjectProperty ctx resobj x = Inr r)"
      by simp
    then show ?thesis
      by blast
  next
    case (Inr r)
    with Cons.prems obtain result' where "cloneArrayElements ctx resobj es result' = Inl err"
      by (cases r) auto
    from Cons.IH [OF this] obtain pre e1 post
      where split: "es = pre @ e1 # post"
        and err: "cloneObjectProperty ctx resobj e1 = Inl err"
        and pre: "\<forall>x \<in> set pre. \<exists>r. cloneObjectProperty ctx resobj x = Inr r"
      by blast
    from split have "e # es = (e # pre) @ e1 # post"
      by simp
    moreover from pre Inr
    have "\<forall>x \<in> set (e # pre). \<exists>r. cloneObjectProperty ctx resobj x = Inr r"
      by simp
    ultimately show ?thesis
      using err by blast
  qed
qed

text \<open>
  Claim C7.  The clone of an array is the array of the clones of its elements in
  their order, without the elements that are skipped; an element of a function
  type is skipped and is no error.  The clone is this array exactly when no
  element fails; when one fails, the error is that of the first element, in
  the order of the array, that fails.  So the array \<open>[1, <function>, 3]\<close> is
  cloned to \<open>[Number 1, Number 3]\<close>, of length 2 (the witness below;
  \<open>0x3FF0000000000000\<close> and \<open>0x4008000000000000\<close> are the numbers 1 and 3).
\<close>

theorem array_clone_keeps_order_and_drops_functions:
  assumes "Type obj = ArrayType elem" and "val obj = ArrayVal es"
  shows "(\<forall>r. cloneObjectProperty ctx resobj obj = Inr r \<longrightarrow>
            r = Some (ArrayProperty
                  (concat (map (\<lambda>e. case cloneObjectProperty ctx (ptr obj) e of
                                       Inr (Some v) \<Rightarrow> [v] | _ \<Rightarrow> []) es))))
       \<and> ((\<exists>r. cloneObjectProperty ctx resobj obj = Inr r) \<longleftrightarrow>
            (\<forall>e \<in> set es. \<exists>r. cloneObjectProperty ctx (ptr obj) e = Inr r))
       \<and> (\<forall>e. Type e = FunctionType \<longrightarrow> cloneObjectProperty ctx (ptr obj) e = Inr None)
       \<and> (\<forall>err. cloneObjectProperty ctx resobj obj = Inl err \<longrightarrow>
            (\<exists>pre e post. es = pre @ e # post \<and>
               cloneObjectProperty ctx (ptr obj) e = Inl err \<and>
               (\<forall>x \<in> set pre. \<exists>r. cloneObjectProperty ctx (ptr obj) x = Inr r)))"
proof -
  obtain p props where obj: "obj = Obj p (ArrayType elem) (ArrayVal es) props"
    using assms by (cases obj) simp
  have clone: "cloneObjectProperty ctx resobj obj =
      (case cloneArrayElements ctx p es [] of
         Inl e \<Rightarrow> Inl e
       | Inr result \<Rightarrow> Inr (Some (ArrayProperty result)))"
    unfolding obj by (rule clone_array_owner)
  have success: "(\<exists>r. cloneObjectProperty ctx resobj obj = Inr r) \<longleftrightarrow>
      (\<forall>e \<in> set es. \<exists>r. cloneObjectProperty ctx p e = Inr r)"
    using cloneArrayElements_success_iff [of ctx p es "[]"]
    unfolding clone by (auto split: sum.splits)
  have result: "r = Some (ArrayProperty
      (concat (map (\<lambda>e. case cloneObjectProperty ctx p e of
                           Inr (Some v) \<Rightarrow> [v] | _ \<Rightarrow> []) es)))"
    if "cloneObjectProperty ctx resobj obj = Inr r" for r
  proof -
    from that success have "\<forall>e \<in> set es. \<forall>err. cloneObjectProperty ctx p e \<noteq> Inl err"
      by fastforce
    from cloneArrayElements_result [OF this, of "[]"] that show ?thesis
      unfolding clone by simp
  qed
  have skip: "cloneObjectProperty ctx p e = Inr None" if "Type e = FunctionType" for e
    using that by (rule clone_function)
  have first: "\<exists>pre e post. es = pre @ e # post \<and>
      cloneObjectProperty ctx p e = Inl err \<and>
      (\<forall>x \<in> set pre. \<exists>r. cloneObjectProperty ctx p x = Inr r)"
    if "cloneObjectProperty ctx resobj obj = Inl err" for err
  proof -
    from that have "cloneArrayElements ctx p es [] = Inl err"
      unfolding clone by (simp split: sum.splits)
    then show ?thesis
      by (rule cloneArrayElements_error_first)
  qed
  have p: "ptr obj = p"
    by (simp add: obj)
  from result success skip first show ?thesis
    unfolding p by blast
qed

theorem array_clone_keeps_order_and_drops_functions_witness:
  "cloneObjectProperty \<lparr>ObjURN = Map.empty\<rparr> 1
     (Obj 2 (ArrayType types_Dynamic)
        (ArrayVal [Obj 3 types_Number (NumberVal 0x3FF0000000000000) [],
                   Obj 4 FunctionType NoValue [],
                   Obj 5 types_Number (NumberVal 0x4008000000000000) []]) [])
   = Inr (Some (ArrayProperty [NumberProperty 0x3FF0000000000000,
                               NumberProperty 0x4008000000000000]))
   \<and> length [NumberProperty 0x3FF0000000000000, NumberProperty 0x4008000000000000] = 2
   \<and> cloneObjectProperty \<lparr>ObjURN = Map.empty\<rparr> 2 (Obj 4 FunctionType NoValue []) = Inr None"
  using array_clone_keeps_order_and_drops_functions
    [where obj = "Obj 2 (ArrayType types_Dynamic)
        (ArrayVal [Obj 3 types_Number (NumberVal 0x3FF0000000000000) [],
                   Obj 4 FunctionType NoValue [],
                   Obj 5 types_Number (NumberVal 0x4008000000000000) []]) []"
       and elem = types_Dynamic
       and es = "[Obj 3 types_Number (NumberVal 0x3FF0000000000000) [],
                   Obj 4 FunctionType NoValue [],
                   Obj 5 types_Number (NumberVal 0x4008000000000000) []]"
       and ctx = "\<lparr>ObjURN = Map.empty\<rparr>" and resobj = 1]
  by simp

section \<open>Property maps\<close>

lemma clone_skip_is_function:
  assumes "cloneObjectProperty ctx resobj e = Inr None"
  shows "Type e = FunctionType"
proof -
  obtain p t v props where e: "e = Obj p t v props"
    by (cases e)
  show ?thesis
  proof (cases "\<exists>future expr sources. t = ComputedType future \<and> v = ComputedVal expr sources")
    case True
    then obtain future expr sources
      where t: "t = ComputedType future" and v: "v = ComputedVal expr sources"
      by blast
    from assms clone_computed_result [of ctx resobj p future expr sources props None]
    show ?thesis
      unfolding e t v by auto
  next
    case False
    with assms show ?thesis
      unfolding e
      by (cases t; cases v) (auto split: if_splits option.splits sum.splits)
  qed
qed

lemma clone_value_variant:
  assumes "cloneObjectProperty ctx resobj e = Inr (Some pv)"
  shows "spec_variant_matches (Type e) pv"
proof -
  obtain p t v props where e: "e = Obj p t v props"
    by (cases e)
  show ?thesis
  proof (cases "\<exists>future expr sources. t = ComputedType future \<and> v = ComputedVal expr sources")
    case True
    then obtain future expr sources
      where t: "t = ComputedType future" and v: "v = ComputedVal expr sources"
      by blast
    from assms clone_computed_result [of ctx resobj p future expr sources props "Some pv"]
    show ?thesis
      unfolding e t v by auto
  next
    case False
    with assms show ?thesis
      unfolding e
      by (cases t; cases v) (auto split: if_splits option.splits sum.splits)
  qed
qed

lemma loop_lookup:
  assumes "distinct (map fst props)"
    and "cloneObjectProperties_loop ctx resobj props acc = Inr result"
  shows "fmlookup result k =
     (case map_of props k of
        None \<Rightarrow> fmlookup acc k
      | Some e \<Rightarrow>
          (case cloneObjectProperty ctx resobj e of
             Inr (Some v) \<Rightarrow> Some v
           | _ \<Rightarrow> fmlookup acc k))"
  using assms
proof (induction props arbitrary: acc)
  case Nil
  then show ?case by simp
next
  case (Cons ke props)
  obtain k' e where ke: "ke = (k', e)"
    by (cases ke)
  from Cons.prems(1) have d: "distinct (map fst props)" and notin: "k' \<notin> fst ` set props"
    by (simp_all add: ke)
  from notin have none: "map_of props k' = None"
    by (simp add: map_of_eq_None_iff)
  from Cons.prems(2) obtain r where r: "cloneObjectProperty ctx resobj e = Inr r"
    by (cases "cloneObjectProperty ctx resobj e") (auto simp: ke)
  show ?case
  proof (cases r)
    case None
    with Cons.prems(2) r have "cloneObjectProperties_loop ctx resobj props acc = Inr result"
      by (simp add: ke)
    from Cons.IH [OF d this] show ?thesis
      by (simp add: ke r None none)
  next
    case (Some v)
    with Cons.prems(2) r
    have "cloneObjectProperties_loop ctx resobj props (fmupd k' v acc) = Inr result"
      by (simp add: ke)
    from Cons.IH [OF d this] show ?thesis
      by (auto simp: ke r Some none split: option.splits sum.splits)
  qed
qed

lemma loop_success_iff:
  "(\<exists>result. cloneObjectProperties_loop ctx resobj props acc = Inr result) \<longleftrightarrow>
   (\<forall>x \<in> set props. \<exists>r. cloneObjectProperty ctx resobj (snd x) = Inr r)"
proof (induction props arbitrary: acc)
  case Nil
  show ?case by simp
next
  case (Cons ke props)
  obtain k e where ke: "ke = (k, e)"
    by (cases ke)
  show ?case
  proof (cases "cloneObjectProperty ctx resobj e")
    case (Inl err)
    then show ?thesis
      by (simp add: ke)
  next
    case (Inr r)
    then show ?thesis
      using Cons.IH by (cases r) (simp_all add: ke)
  qed
qed

lemma loop_error_first:
  assumes "cloneObjectProperties_loop ctx resobj props acc = Inl err"
  shows "\<exists>pre k e post. props = pre @ (k, e) # post \<and>
           cloneObjectProperty ctx resobj e = Inl err \<and>
           (\<forall>x \<in> set pre. \<exists>r. cloneObjectProperty ctx resobj (snd x) = Inr r)"
  using assms
proof (induction props arbitrary: acc)
  case Nil
  then show ?case by simp
next
  case (Cons ke props)
  obtain k e where ke: "ke = (k, e)"
    by (cases ke)
  show ?case
  proof (cases "cloneObjectProperty ctx resobj e")
    case (Inl err')
    with Cons.prems have "err' = err"
      by (simp add: ke)
    with Inl have "ke # props = [] @ (k, e) # props \<and>
        cloneObjectProperty ctx resobj e = Inl err \<and>
        (\<forall>x \<in> set []. \<exists>r. cloneObjectProperty ctx resobj (snd x) = Inr r)"
      by (simp add: ke)
    then show ?thesis
      by blast
  next
    case (Inr r)
    with Cons.prems obtain acc' where "cloneObjectProperties_loop ctx resobj props acc' = Inl err"
      by (cases r) (auto simp: ke)
    from Cons.IH [OF this] obtain pre k1 e1 post
      where split: "props = pre @ (k1, e1) # post"
        and err: "cloneObjectProperty ctx resobj e1 = Inl err"
        and pre: "\<forall>x \<in> set pre. \<exists>r. cloneObjectProperty ctx resobj (snd x) = Inr r"
      by blast
    from split have "ke # props = (ke # pre) @ (k1, e1) # post"
      by simp
    moreover from pre Inr
    have "\<forall>x \<in> set (ke # pre). \<exists>r. cloneObjectProperty ctx resobj (snd x) = Inr r"
      by (simp add: ke)
    ultimately show ?thesis
      using err by blast
  qed
qed

text \<open>
  Claim C6.  Let the keys of a property map be distinct, as those of the
  source container are.  When the clone of the map is a result map, a key whose
  value has a function type is absent from it, and every other key is present
  with the clone of its value, which is of the variant that belongs to the
  declared type of the value; the result has no further keys.  A value of a
  function type is skipped and is no error, so the clone is a result map exactly
  when no value of the map fails.  The keys are processed in the order of the
  container: when the clone fails, its error is that of the first key, in this
  order, whose value fails.
\<close>

theorem property_map_clone_omits_functions:
  assumes "distinct (map fst props)"
  shows "(\<forall>result. cloneObjectProperties ctx resobj props = Inr result \<longrightarrow>
            (\<forall>k e. (k, e) \<in> set props \<longrightarrow>
               (if Type e = FunctionType then fmlookup result k = None
                else \<exists>v. fmlookup result k = Some v \<and>
                         cloneObjectProperty ctx resobj e = Inr (Some v) \<and>
                         spec_variant_matches (Type e) v))
            \<and> (\<forall>k. k \<notin> fst ` set props \<longrightarrow> fmlookup result k = None))
       \<and> ((\<exists>result. cloneObjectProperties ctx resobj props = Inr result) \<longleftrightarrow>
            (\<forall>x \<in> set props. \<exists>r. cloneObjectProperty ctx resobj (snd x) = Inr r))
       \<and> (\<forall>e. Type e = FunctionType \<longrightarrow> cloneObjectProperty ctx resobj e = Inr None)
       \<and> (\<forall>err. cloneObjectProperties ctx resobj props = Inl err \<longrightarrow>
            (\<exists>pre k e post. props = pre @ (k, e) # post \<and>
               cloneObjectProperty ctx resobj e = Inl err \<and>
               (\<forall>x \<in> set pre. \<exists>r. cloneObjectProperty ctx resobj (snd x) = Inr r)))"
proof -
  have present: "if Type e = FunctionType then fmlookup result k = None
      else \<exists>v. fmlookup result k = Some v \<and>
               cloneObjectProperty ctx resobj e = Inr (Some v) \<and>
               spec_variant_matches (Type e) v"
    if res: "cloneObjectProperties ctx resobj props = Inr result" and ke: "(k, e) \<in> set props"
    for result k e
  proof -
    from res have loop: "cloneObjectProperties_loop ctx resobj props fmempty = Inr result"
      by (simp add: cloneObjectProperties_def)
    from assms ke have m: "map_of props k = Some e"
      by simp
    from loop loop_success_iff [of ctx resobj props fmempty] ke
    obtain r where r: "cloneObjectProperty ctx resobj e = Inr r"
      by fastforce
    have look: "fmlookup result k = r"
      using loop_lookup [OF assms loop, of k] by (cases r) (simp_all add: m r)
    show ?thesis
    proof (cases "Type e = FunctionType")
      case True
      with r look show ?thesis
        by (simp add: clone_function)
    next
      case False
      with r clone_skip_is_function [of ctx resobj e] obtain v where v: "r = Some v"
        by (cases r) auto
      with r have "spec_variant_matches (Type e) v"
        by (simp add: clone_value_variant)
      with False r v look show ?thesis
        by simp
    qed
  qed
  have absent: "fmlookup result k = None"
    if res: "cloneObjectProperties ctx resobj props = Inr result" and k: "k \<notin> fst ` set props"
    for result k
  proof -
    from res have loop: "cloneObjectProperties_loop ctx resobj props fmempty = Inr result"
      by (simp add: cloneObjectProperties_def)
    from k have "map_of props k = None"
      by (simp add: map_of_eq_None_iff)
    with loop_lookup [OF assms loop, of k] show ?thesis
      by simp
  qed
  have success: "(\<exists>result. cloneObjectProperties ctx resobj props = Inr result) \<longleftrightarrow>
      (\<forall>x \<in> set props. \<exists>r. cloneObjectProperty ctx resobj (snd x) = Inr r)"
    unfolding cloneObjectProperties_def by (rule loop_success_iff)
  have skip: "cloneObjectProperty ctx resobj e = Inr None" if "Type e = FunctionType" for e
    using that by (rule clone_function)
  have first: "\<exists>pre k e post. props = pre @ (k, e) # post \<and>
      cloneObjectProperty ctx resobj e = Inl err \<and>
      (\<forall>x \<in> set pre. \<exists>r. cloneObjectProperty ctx resobj (snd x) = Inr r)"
    if "cloneObjectProperties ctx resobj props = Inl err" for err
    using that unfolding cloneObjectProperties_def by (rule loop_error_first)
  from present absent success skip first show ?thesis
    by blast
qed

theorem property_map_clone_omits_functions_witness:
  "distinct (map fst [(''count'', Obj 3 types_Number (NumberVal 0x4008000000000000) []),
                      (''handler'', Obj 4 FunctionType NoValue []),
                      (''name'', Obj 5 types_String (StringVal ''web'') [])])
   \<and> cloneObjectProperties \<lparr>ObjURN = Map.empty\<rparr> 1
        [(''count'', Obj 3 types_Number (NumberVal 0x4008000000000000) []),
         (''handler'', Obj 4 FunctionType NoValue []),
         (''name'', Obj 5 types_String (StringVal ''web'') [])]
     = Inr (fmupd ''name'' (StringProperty ''web'')
             (fmupd ''count'' (NumberProperty 0x4008000000000000) fmempty))
   \<and> fmlookup (fmupd ''name'' (StringProperty ''web'')
             (fmupd ''count'' (NumberProperty 0x4008000000000000) fmempty)) ''handler'' = None
   \<and> fmlookup (fmupd ''name'' (StringProperty ''web'')
             (fmupd ''count'' (NumberProperty 0x4008000000000000) fmempty)) ''name''
       = Some (StringProperty ''web'')
   \<and> spec_variant_matches types_String (StringProperty ''web'')"
  using property_map_clone_omits_functions
    [where props = "[(''count'', Obj 3 types_Number (NumberVal 0x4008000000000000) []),
                     (''handler'', Obj 4 FunctionType NoValue []),
                     (''name'', Obj 5 types_String (StringVal ''web'') [])]"
       and ctx = "\<lparr>ObjURN = Map.empty\<rparr>" and resobj = 1]
  by (simp add: cloneObjectProperties_def)

section \<open>The owner of the elements of an array\<close>

text \<open>
  Claim C1 does not hold of the code.  The resource at address 1 has the
  property \<open>''ids''\<close>, an array at address 2, whose one element is a computed
  string that is not an expression and whose one source is the resource itself.
  As a direct property of the resource the element is cloned to an \<open>Output\<close>.
  Inside the array it is cloned with the array as its owner: to a \<open>Computed\<close>
  that depends on the URN of the resource when the context holds one, and to the
  fatal error of a missing computed reference when it holds none.
\<close>

theorem array_element_owner_is_the_array:
  "cloneResource \<lparr>ObjURN = [1 \<mapsto> ''urn:r'']\<rparr>
     (Obj 1 (Class ''aws:ec2/instance:Instance'' True) NoValue
        [(''ids'', Obj 2 (ArrayType types_String)
                     (ArrayVal [Obj 3 (ComputedType types_String) (ComputedVal False [1]) []]) [])])
   = Inr (fmupd ''ids'' (ArrayProperty [Computed (StringProperty '''') [''urn:r'']]) fmempty)
   \<and> cloneResource \<lparr>ObjURN = Map.empty\<rparr>
     (Obj 1 (Class ''aws:ec2/instance:Instance'' True) NoValue
        [(''ids'', Obj 2 (ArrayType types_String)
                     (ArrayVal [Obj 3 (ComputedType types_String) (ComputedVal False [1]) []]) [])])
   = Inl (MissingComputedReference 2 1)
   \<and> cloneResource \<lparr>ObjURN = Map.empty\<rparr>
     (Obj 1 (Class ''aws:ec2/instance:Instance'' True) NoValue
        [(''id'', Obj 3 (ComputedType types_String) (ComputedVal False [1]) [])])
   = Inr (fmupd ''id'' (Output (StringProperty '''')) fmempty)"
  by (simp add: cloneResource_def makeProperty_def)

text \<open>
  Claim C3 does not hold of the code either, by the same call of the array case.
  The resource at address 1 has the property \<open>''ids''\<close>, an array at address 2,
  whose one element is a computed string with two sources: the resource itself
  and the resource at address 4, of URN \<open>c-1\<close>.  As a direct property of the
  resource the element depends on \<open>c-1\<close> alone.  Inside the array the
  occurrence of the resource is not left out: the element depends on the URN of
  the resource too when the context holds one, and the clone is the fatal error
  of a missing computed reference to the resource when it holds none, although
  the one other source has its entry.
\<close>

theorem array_element_depends_on_its_resource:
  "cloneResource \<lparr>ObjURN = [1 \<mapsto> ''urn:r'', 4 \<mapsto> ''c-1'']\<rparr>
     (Obj 1 (Class ''aws:ec2/instance:Instance'' True) NoValue
        [(''ids'', Obj 2 (ArrayType types_String)
                     (ArrayVal [Obj 3 (ComputedType types_String)
                                  (ComputedVal True [1, 4]) []]) [])])
   = Inr (fmupd ''ids''
            (ArrayProperty [Computed (StringProperty '''') [''urn:r'', ''c-1'']]) fmempty)
   \<and> cloneResource \<lparr>ObjURN = [4 \<mapsto> ''c-1'']\<rparr>
     (Obj 1 (Class ''aws:ec2/instance:Instance'' True) NoValue
        [(''ids'', Obj 2 (ArrayType types_String)
                     (ArrayVal [Obj 3 (ComputedType types_String)
                                  (ComputedVal True [1, 4]) []]) [])])
   = Inl (MissingComputedReference 2 1)
   \<and> cloneResource \<lparr>ObjURN = [4 \<mapsto> ''c-1'']\<rparr>
     (Obj 1 (Class ''aws:ec2/instance:Instance'' True) NoValue
        [(''id'', Obj 3 (ComputedType types_String) (ComputedVal True [1, 4]) [])])
   = Inr (fmupd ''id'' (Computed (StringProperty '''') [''c-1'']) fmempty)"
  by (simp add: cloneResource_def makeProperty_def)

section \<open>Assigning the ID and the URN\<close>

lemma SetID_cases:
  "SetID r i = (if r_id r = [] then Inr (r\<lparr>r_id := i\<rparr>) else Inl (AlreadyAssigned ''id''))"
  by (simp add: SetID_def HasID_def)

lemma SetURN_cases:
  "SetURN r m = (if r_urn r = [] then Inr (r\<lparr>r_urn := m\<rparr>) else Inl (AlreadyAssigned ''urn''))"
  by (simp add: SetURN_def HasURN_def)

text \<open>
  Claim C9.  \<open>SetID\<close> and \<open>SetURN\<close> succeed when their field is empty and then
  set it to the given value; they fail with \<open>AlreadyAssigned\<close> when the field is
  not empty.  So after a field has been set to a value that is not empty, no
  further call sets it.  The fields are independent: a call on one leaves the
  other as it was, and whether it succeeds does not depend on the other.
\<close>

theorem set_id_and_urn_at_most_once:
  "SetID r i = (if r_id r = [] then Inr (r\<lparr>r_id := i\<rparr>) else Inl (AlreadyAssigned ''id''))
   \<and> SetURN r m = (if r_urn r = [] then Inr (r\<lparr>r_urn := m\<rparr>) else Inl (AlreadyAssigned ''urn''))
   \<and> (\<forall>r'. SetID r i = Inr r' \<and> i \<noteq> [] \<longrightarrow> (\<forall>j. SetID r' j = Inl (AlreadyAssigned ''id'')))
   \<and> (\<forall>r'. SetURN r m = Inr r' \<and> m \<noteq> [] \<longrightarrow> (\<forall>n. SetURN r' n = Inl (AlreadyAssigned ''urn'')))
   \<and> (\<forall>r'. SetID r i = Inr r' \<longrightarrow> r_urn r' = r_urn r \<and> isl (SetURN r' m) = isl (SetURN r m))
   \<and> (\<forall>r'. SetURN r m = Inr r' \<longrightarrow> r_id r' = r_id r \<and> isl (SetID r' i) = isl (SetID r i))
   \<and> isl (SetID (r\<lparr>r_urn := m\<rparr>) i) = isl (SetID r i)
   \<and> isl (SetURN (r\<lparr>r_id := i\<rparr>) m) = isl (SetURN r m)"
proof -
  have a: "\<forall>r'. SetID r i = Inr r' \<and> i \<noteq> [] \<longrightarrow> (\<forall>j. SetID r' j = Inl (AlreadyAssigned ''id''))"
    by (auto simp: SetID_cases split: if_splits)
  have b: "\<forall>r'. SetURN r m = Inr r' \<and> m \<noteq> [] \<longrightarrow> (\<forall>n. SetURN r' n = Inl (AlreadyAssigned ''urn''))"
    by (auto simp: SetURN_cases split: if_splits)
  have c: "\<forall>r'. SetID r i = Inr r' \<longrightarrow> r_urn r' = r_urn r \<and> isl (SetURN r' m) = isl (SetURN r m)"
    by (auto simp: SetID_cases SetURN_cases split: if_splits)
  have d: "\<forall>r'. SetURN r m = Inr r' \<longrightarrow> r_id r' = r_id r \<and> isl (SetID r' i) = isl (SetID r i)"
    by (auto simp: SetID_cases SetURN_cases split: if_splits)
  have e: "isl (SetID (r\<lparr>r_urn := m\<rparr>) i) = isl (SetID r i)"
    by (simp add: SetID_cases)
  have f: "isl (SetURN (r\<lparr>r_id := i\<rparr>) m) = isl (SetURN r m)"
    by (simp add: SetURN_cases)
  from a b c d e f show ?thesis
    using SetID_cases [of r i] SetURN_cases [of r m] by blast
qed

theorem set_id_and_urn_at_most_once_witness:
  "SetID \<lparr>r_id = '''', r_urn = '''', r_t = ''aws:ec2/instance:Instance'',
          r_inputs = fmempty, r_outputs = fmempty\<rparr> ''i-123''
     = Inr \<lparr>r_id = ''i-123'', r_urn = '''', r_t = ''aws:ec2/instance:Instance'',
            r_inputs = fmempty, r_outputs = fmempty\<rparr>
   \<and> SetID \<lparr>r_id = ''i-123'', r_urn = '''', r_t = ''aws:ec2/instance:Instance'',
          r_inputs = fmempty, r_outputs = fmempty\<rparr> ''i-456''
     = Inl (AlreadyAssigned ''id'')
   \<and> SetURN \<lparr>r_id = ''i-123'', r_urn = '''', r_t = ''aws:ec2/instance:Instance'',
          r_inputs = fmempty, r_outputs = fmempty\<rparr> ''urn:a''
     = Inr \<lparr>r_id = ''i-123'', r_urn = ''urn:a'', r_t = ''aws:ec2/instance:Instance'',
            r_inputs = fmempty, r_outputs = fmempty\<rparr>"
proof -
  have first: "SetID \<lparr>r_id = '''', r_urn = '''', r_t = ''aws:ec2/instance:Instance'',
          r_inputs = fmempty, r_outputs = fmempty\<rparr> ''i-123''
     = Inr \<lparr>r_id = ''i-123'', r_urn = '''', r_t = ''aws:ec2/instance:Instance'',
            r_inputs = fmempty, r_outputs = fmempty\<rparr>"
    using set_id_and_urn_at_most_once [where r = "\<lparr>r_id = '''', r_urn = '''', r_t = ''aws:ec2/instance:Instance'',
                   r_inputs = fmempty, r_outputs = fmempty\<rparr>" and i = "''i-123''",
      THEN conjunct1]
    by simp
  have again: "SetID \<lparr>r_id = ''i-123'', r_urn = '''', r_t = ''aws:ec2/instance:Instance'',
          r_inputs = fmempty, r_outputs = fmempty\<rparr> ''i-456''
     = Inl (AlreadyAssigned ''id'')"
    using set_id_and_urn_at_most_once [where r = "\<lparr>r_id = ''i-123'', r_urn = '''', r_t = ''aws:ec2/instance:Instance'',
                   r_inputs = fmempty, r_outputs = fmempty\<rparr>" and i = "''i-456''",
      THEN conjunct1]
    by simp
  have other: "SetURN \<lparr>r_id = ''i-123'', r_urn = '''', r_t = ''aws:ec2/instance:Instance'',
          r_inputs = fmempty, r_outputs = fmempty\<rparr> ''urn:a''
     = Inr \<lparr>r_id = ''i-123'', r_urn = ''urn:a'', r_t = ''aws:ec2/instance:Instance'',
            r_inputs = fmempty, r_outputs = fmempty\<rparr>"
    using set_id_and_urn_at_most_once [where r = "\<lparr>r_id = ''i-123'', r_urn = '''', r_t = ''aws:ec2/instance:Instance'',
                   r_inputs = fmempty, r_outputs = fmempty\<rparr>" and m = "''urn:a''",
      THEN conjunct2, THEN conjunct1]
    by simp
  from first again other show ?thesis
    by (intro conjI)
qed

section \<open>The length of a unique hexadecimal name\<close>

lemma length_EncodeToString: "length (EncodeToString bs) = 2 * length bs"
  by (induction bs) simp_all

lemma makeslice_granted:
  assumes "0 \<le> len" and "len \<le> maxAlloc" and "mallocgc len"
  shows "makeslice mallocgc len = Inr ()"
  using assms by (simp add: makeslice_def)

lemma makeslice_oversized:
  assumes "maxAlloc < len"
  shows "makeslice mallocgc len = Inl (MakeSliceLenOutOfRange len)"
  using assms by (simp add: makeslice_def)

lemma NewUniqueHex_oversized:
  assumes "maxAlloc < randlen"
  shows "NewUniqueHex mallocgc rand_Read prefix randlen maxlen
           = Inl (MakeSliceLenOutOfRange randlen)"
  using assms by (simp add: NewUniqueHex_def makeslice_oversized)

lemma NewUniqueHex_drawn:
  assumes "0 \<le> randlen" and "0 \<le> maxlen"
    and "int (length prefix) + 2 * randlen \<le> maxAlloc"
    and "mallocgc randlen" and "mallocgc (2 * randlen)"
    and "mallocgc (int (length prefix) + 2 * randlen)"
    and "rand_Read (nat randlen) = (bs, False)" and "int (length bs) = randlen"
  shows "NewUniqueHex mallocgc rand_Read prefix randlen maxlen
           = Inr (take (nat maxlen) (prefix @ EncodeToString bs))"
proof -
  from assms(1,3) have "randlen \<le> maxAlloc" and "2 * randlen \<le> maxAlloc"
    by simp_all
  with assms(1,4,5)
  have buffer: "makeslice mallocgc randlen = Inr ()"
    and digits: "makeslice mallocgc (2 * randlen) = Inr ()"
    by (simp_all add: makeslice_granted)
  from assms(8) have len: "int (length bs) = randlen"
    by simp
  show ?thesis
    unfolding NewUniqueHex_def buffer assms(7)
    using assms(2,3,6) digits
    by (simp add: len Let_def)
qed

lemma EncodeToString_example:
  "EncodeToString [0xde, 0xad, 0xbe, 0xef, 0x01, 0x23, 0x45, 0x67] = ''deadbeef01234567''"
  by (simp add: hextable_def)

text \<open>
  Claim C10, as amended.  Let the number of random bytes and the greatest length
  be not negative, let the three allocations of the call be granted (the bytes,
  their digits and the whole string, none above the bound of the runtime), and
  let the read of the random bytes succeed.  Then the result is the prefix
  followed by the hexadecimal digits of the bytes, cut to the greatest length
  when it is longer, so its length is the least of \<open>len(prefix) + 2 * randlen\<close>
  and \<open>maxlen\<close>, whatever the bytes are.  For the prefix \<open>r-\<close>, 8 bytes and the
  greatest length 6, the result has length 6 and begins with the prefix.
\<close>

theorem unique_hex_length_is_capped:
  assumes "0 \<le> randlen" and "0 \<le> maxlen"
    and "int (length prefix) + 2 * randlen \<le> maxAlloc"
    and "mallocgc randlen" and "mallocgc (2 * randlen)"
    and "mallocgc (int (length prefix) + 2 * randlen)"
    and "rand_Read (nat randlen) = (bs, False)" and "int (length bs) = randlen"
  shows "NewUniqueHex mallocgc rand_Read prefix randlen maxlen
           = Inr (take (nat maxlen) (prefix @ EncodeToString bs))
       \<and> (\<exists>str. NewUniqueHex mallocgc rand_Read prefix randlen maxlen = Inr str \<and>
             int (length str) = min (int (length prefix) + 2 * randlen) maxlen)
       \<and> (prefix = ''r-'' \<and> randlen = 8 \<and> maxlen = 6 \<longrightarrow>
             (\<exists>str. NewUniqueHex mallocgc rand_Read prefix randlen maxlen = Inr str \<and>
                length str = 6 \<and> take 2 str = ''r-''))"
proof -
  let ?str = "take (nat maxlen) (prefix @ EncodeToString bs)"
  have res: "NewUniqueHex mallocgc rand_Read prefix randlen maxlen = Inr ?str"
    using assms by (rule NewUniqueHex_drawn)
  define full where "full = prefix @ EncodeToString bs"
  have full: "int (length full) = int (length prefix) + 2 * randlen"
    using assms(8) by (simp add: full_def length_EncodeToString)
  have "length (take (nat maxlen) full) = min (length full) (nat maxlen)"
    by (rule length_take)
  with assms(2) have "int (length (take (nat maxlen) full)) = min (int (length full)) maxlen"
    by (cases "length full \<le> nat maxlen") auto
  then have len: "int (length ?str) = min (int (length prefix) + 2 * randlen) maxlen"
    by (simp only: full) (simp only: full_def)
  have six: "length ?str = 6 \<and> take 2 ?str = ''r-''"
    if "prefix = ''r-'' \<and> randlen = 8 \<and> maxlen = 6"
  proof -
    from that len have "length ?str = 6"
      by simp
    moreover from that have "take 2 ?str = ''r-''"
      by (simp add: take_Cons')
    ultimately show ?thesis
      by simp
  qed
  from res len
  have capped: "\<exists>str. NewUniqueHex mallocgc rand_Read prefix randlen maxlen = Inr str \<and>
      int (length str) = min (int (length prefix) + 2 * randlen) maxlen"
    by blast
  from res six
  have example: "prefix = ''r-'' \<and> randlen = 8 \<and> maxlen = 6 \<longrightarrow>
      (\<exists>str. NewUniqueHex mallocgc rand_Read prefix randlen maxlen = Inr str \<and>
         length str = 6 \<and> take 2 str = ''r-'')"
    by blast
  from res capped example show ?thesis
    by (intro conjI)
qed

theorem unique_hex_length_is_capped_witness:
  "(0::int) \<le> 8 \<and> (0::int) \<le> 6
   \<and> int (length ''r-'') + 2 * 8 \<le> maxAlloc
   \<and> (\<lambda>n. n \<le> 4096) (8::int) \<and> (\<lambda>n. n \<le> 4096) (2 * 8 :: int)
   \<and> (\<lambda>n. n \<le> 4096) (int (length ''r-'') + 2 * 8)
   \<and> (\<lambda>n. ([0xde, 0xad, 0xbe, 0xef, 0x01, 0x23, 0x45, 0x67], False)) (nat 8)
       = ([0xde, 0xad, 0xbe, 0xef, 0x01, 0x23, 0x45, 0x67 :: 8 word], False)
   \<and> int (length [0xde, 0xad, 0xbe, 0xef, 0x01, 0x23, 0x45, 0x67 :: 8 word]) = 8
   \<and> NewUniqueHex (\<lambda>n. n \<le> 4096)
         (\<lambda>n. ([0xde, 0xad, 0xbe, 0xef, 0x01, 0x23, 0x45, 0x67], False)) ''r-'' 8 6
       = Inr ''r-dead''"
  using unique_hex_length_is_capped
    [where randlen = 8 and maxlen = 6 and prefix = "''r-''"
       and bs = "[0xde, 0xad, 0xbe, 0xef, 0x01, 0x23, 0x45, 0x67]"
       and mallocgc = "\<lambda>n. n \<le> 4096"
       and rand_Read = "\<lambda>n. ([0xde, 0xad, 0xbe, 0xef, 0x01, 0x23, 0x45, 0x67], False)"]
  by (simp add: hextable_def maxAlloc_def)

text \<open>
  The claim as it was stated fails for a greatest length that is negative: the
  string is longer than it, and the slice \<^verbatim>\<open>str[:maxlen]\<close> panics.  It fails
  for a negative number of bytes too, and for \<open>2 ^ 62\<close> bytes, which is above
  the bound of the runtime: there \<^verbatim>\<open>make\<close> panics, whatever the heap grants.
\<close>

theorem unique_hex_length_out_of_range_counterexample:
  "NewUniqueHex (\<lambda>n. True)
     (\<lambda>n. ([0xde, 0xad, 0xbe, 0xef, 0x01, 0x23, 0x45, 0x67], False)) ''r-'' 8 (- 1)
   = Inl (SliceBoundsOutOfRange (- 1))
   \<and> NewUniqueHex (\<lambda>n. True) (\<lambda>n. ([], False)) ''r-'' (- 1) 6
   = Inl (MakeSliceLenOutOfRange (- 1))
   \<and> NewUniqueHex (\<lambda>n. True) (\<lambda>n. (replicate n 0, False)) ''r-'' (2 ^ 62) 6
   = Inl (MakeSliceLenOutOfRange (2 ^ 62))"
  by (simp add: NewUniqueHex_def makeslice_def maxAlloc_def)

end
